theory Spec2Isabelle
  imports Main "HOL-Library.Sublist"
begin

section \<open>Assume-role policies of the credential broker (pkg/server/policy.go)\<close>

text \<open>
  The file under verification decides whether a pod may assume the role it asks for.
  It holds an interface \<open>AssumeRolePolicy\<close>, a composite that runs a list of policies,
  two single policies, and three implementations of the result interface \<open>Decision\<close>.

  The embedding follows the Go text:
  \<^item> a call that does I/O (a member policy, the resolver, the namespace finder) takes the
    state of the world and returns the new one beside its result, so that "is not
    invoked" is a statement about the state;
  \<^item> a Go result pair \<open>(Decision, error)\<close> is a pair of options, \<open>None\<close> for \<open>nil\<close>;
  \<^item> a run-time panic is the outcome \<open>Panic\<close>.
\<close>

subsection \<open>Decisions\<close>

text \<open>
  The package's three implementations of \<open>Decision\<close>: \<open>allowed\<close>, \<open>forbidden\<close> and
  \<open>namespacePolicyForbidden\<close>. The fields of \<open>forbidden\<close> are \<open>requested\<close> and
  \<open>annotated\<close>, those of \<open>namespacePolicyForbidden\<close> are \<open>expression\<close> and \<open>role\<close>, in
  this order.
\<close>

datatype Decision =
    allowed
  | forbidden string string
  | namespacePolicyForbidden string string

fun IsAllowed :: "Decision \<Rightarrow> bool" where
  "IsAllowed allowed = True"
| "IsAllowed (forbidden r a) = False"
| "IsAllowed (namespacePolicyForbidden e r) = False"

text \<open>
  \<open>fmt.Sprintf\<close> with \<open>%s\<close> verbs on strings is concatenation; \<open>quoted v\<close> is \<open>v\<close>
  between the two single quotes of the format strings.
\<close>

definition quoted :: "string \<Rightarrow> string" where
  "quoted v = [CHR 0x27] @ v @ [CHR 0x27]"

fun Explanation :: "Decision \<Rightarrow> string" where
  "Explanation allowed = ''''"
| "Explanation (forbidden r a) =
     ''requested '' @ quoted r @ '' but annotated with '' @ quoted a @ '', forbidden''"
| "Explanation (namespacePolicyForbidden e r) =
     ''namespace policy expression '' @ quoted e @ '' forbids role '' @ quoted r"

subsection \<open>Errors and outcomes\<close>

text \<open>
  A Go \<open>error\<close> value. The policies make no error of their own: they pass on what the
  resolver, the namespace finder and \<open>regexp.Compile\<close> return. A collaborator's error
  is identified by its message; a syntax error of the regular-expression parser by its code.
\<close>

datatype ErrorCode =
    ErrMissingParen
  | ErrUnexpectedParen
  | ErrMissingRepeatArgument
  | ErrInvalidRepeatOp
  | OutsideFragment

datatype error = errorString string | syntaxError ErrorCode

text \<open>
  What a call of \<open>IsAllowedAssumeRole\<close> does: it returns the pair \<open>(Decision, error)\<close>,
  either component possibly \<open>nil\<close>, or it panics.
\<close>

datatype outcome = Return "Decision option" "error option" | Panic

subsection \<open>External entities\<close>

text \<open>
  The identity the resolver produces (\<open>sts.ResolvedRole\<close>): the policies read its
  \<open>Name\<close> and its \<open>ARN\<close>.
\<close>

record ResolvedRole =
  Name :: string
  ARN :: string

text \<open>
  Of a pod the policies read the namespace name, of a namespace the annotations; both
  are Kubernetes objects with an \<open>ObjectMeta\<close>. A pod and a namespace are values here:
  the policies are not modelled on a \<open>nil\<close> pod.
\<close>

record ObjectMeta =
  Namespace :: string
  Annotations :: "string \<rightharpoonup> string"

type_synonym Pod = ObjectMeta

type_synonym Namespace = ObjectMeta

text \<open>Reading a Go map at a missing key gives the zero value, the empty string.\<close>

definition map_index :: "(string \<rightharpoonup> string) \<Rightarrow> string \<Rightarrow> string" where
  "map_index m k = (case m k of None \<Rightarrow> '''' | Some v \<Rightarrow> v)"

subsection \<open>Interfaces\<close>

text \<open>
  \<open>'c\<close> is \<open>context.Context\<close>, \<open>'s\<close> the state of the world that calls may read and
  change. The resolver and the namespace finder return an error or a value
  (\<open>Inl\<close> the error).
\<close>

type_synonym ('c, 's) AssumeRolePolicy = "'c \<Rightarrow> string \<Rightarrow> Pod \<Rightarrow> 's \<Rightarrow> outcome \<times> 's"

type_synonym 's ARNResolver = "string \<Rightarrow> 's \<Rightarrow> (error + ResolvedRole) \<times> 's"

type_synonym ('c, 's) NamespaceFinder = "'c \<Rightarrow> string \<Rightarrow> 's \<Rightarrow> (error + Namespace) \<times> 's"

text \<open>
  What the file uses of other packages and does not define, taken as parameters:
  \<open>k8s.PodRole\<close>, the constant \<open>k8s.AnnotationPermittedKey\<close>, the method \<open>Equals\<close> of
  \<open>sts.ResolvedRole\<close>, and \<open>regexp.Compile\<close>. A compiled expression is used through
  \<open>MatchString\<close> only, so \<open>regexp.Compile\<close> returns an error or that predicate.
\<close>

record packages =
  PodRole :: "Pod \<Rightarrow> string"
  AnnotationPermittedKey :: string
  Equals :: "ResolvedRole \<Rightarrow> ResolvedRole \<Rightarrow> bool"
  regexp_Compile :: "string \<Rightarrow> error + (string \<Rightarrow> bool)"

subsection \<open>CompositeAssumeRolePolicy\<close>

record ('c, 's) CompositeAssumeRolePolicy =
  policies :: "('c, 's) AssumeRolePolicy list"

text \<open>
  The loop of \<open>IsAllowedAssumeRole\<close> over \<open>p.policies\<close>. A member that returns
  \<open>nil, nil\<close> makes \<open>decision.IsAllowed()\<close> a call on a nil interface, which panics;
  a panic of a member unwinds through the loop.
\<close>

fun range_policies :: "('c, 's) AssumeRolePolicy list \<Rightarrow> ('c, 's) AssumeRolePolicy" where
  "range_policies [] ctx role pod s = (Return (Some allowed) None, s)"
| "range_policies (policy # rest) ctx role pod s =
     (case policy ctx role pod s of
        (Panic, s') \<Rightarrow> (Panic, s')
      | (Return decision err, s') \<Rightarrow>
          (case err of
             Some e \<Rightarrow> (Return None (Some e), s')
           | None \<Rightarrow>
               (case decision of
                  None \<Rightarrow> (Panic, s')
                | Some d \<Rightarrow>
                    if \<not> IsAllowed d then (Return (Some d) None, s')
                    else range_policies rest ctx role pod s')))"

definition Composite_IsAllowedAssumeRole ::
  "('c, 's) CompositeAssumeRolePolicy \<Rightarrow> ('c, 's) AssumeRolePolicy" where
  "Composite_IsAllowedAssumeRole p ctx role pod s = range_policies (policies p) ctx role pod s"

definition Policies :: "('c, 's) AssumeRolePolicy list \<Rightarrow> ('c, 's) CompositeAssumeRolePolicy" where
  "Policies p = \<lparr>policies = p\<rparr>"

subsection \<open>RequestingAnnotatedRolePolicy\<close>

text \<open>The field \<open>pods\<close> is never read and is left out.\<close>

record 's RequestingAnnotatedRolePolicy =
  resolver :: "'s ARNResolver"

definition NewRequestingAnnotatedRolePolicy :: "'s ARNResolver \<Rightarrow> 's RequestingAnnotatedRolePolicy" where
  "NewRequestingAnnotatedRolePolicy r = \<lparr>resolver = r\<rparr>"

definition Requesting_IsAllowedAssumeRole ::
  "packages \<Rightarrow> 's RequestingAnnotatedRolePolicy \<Rightarrow> ('c, 's) AssumeRolePolicy" where
  "Requesting_IsAllowedAssumeRole x p ctx role pod s =
     (case resolver p (PodRole x pod) s of
        (Inl err, s1) \<Rightarrow> (Return None (Some err), s1)
      | (Inr annotatedIdentiy, s1) \<Rightarrow>
          (case resolver p role s1 of
             (Inl err, s2) \<Rightarrow> (Return None (Some err), s2)
           | (Inr requestedIdentity, s2) \<Rightarrow>
               if Equals x annotatedIdentiy requestedIdentity
               then (Return (Some allowed) None, s2)
               else (Return (Some (forbidden role (Name annotatedIdentiy))) None, s2)))"

subsection \<open>NamespacePermittedRoleNamePolicy\<close>

record ('c, 's) NamespacePermittedRoleNamePolicy =
  namespaces :: "('c, 's) NamespaceFinder"
  ns_resolver :: "'s ARNResolver"
  strict :: bool

definition NewNamespacePermittedRoleNamePolicy ::
  "bool \<Rightarrow> ('c, 's) NamespaceFinder \<Rightarrow> 's ARNResolver \<Rightarrow> ('c, 's) NamespacePermittedRoleNamePolicy" where
  "NewNamespacePermittedRoleNamePolicy strictRegexp n r =
     \<lparr>namespaces = n, ns_resolver = r, strict = strictRegexp\<rparr>"

text \<open>The string handed to \<open>regexp.Compile\<close>.\<close>

definition compiled_text :: "bool \<Rightarrow> string \<Rightarrow> string" where
  "compiled_text strictRegexp e = (if strictRegexp then ''^'' @ e @ ''$'' else e)"

definition Namespace_IsAllowedAssumeRole ::
  "packages \<Rightarrow> ('c, 's) NamespacePermittedRoleNamePolicy \<Rightarrow> ('c, 's) AssumeRolePolicy" where
  "Namespace_IsAllowedAssumeRole x p ctx role pod s =
     (case ns_resolver p role s of
        (Inl err, s1) \<Rightarrow> (Return None (Some err), s1)
      | (Inr requestedIdentity, s1) \<Rightarrow>
          (case namespaces p ctx (Namespace pod) s1 of
             (Inl err, s2) \<Rightarrow> (Return None (Some err), s2)
           | (Inr ns, s2) \<Rightarrow>
               (let e = map_index (Annotations ns) (AnnotationPermittedKey x) in
                if e = '''' then (Return (Some (namespacePolicyForbidden ''(empty)'' role)) None, s2)
                else
                  (case regexp_Compile x (compiled_text (strict p) e) of
                     Inl err \<Rightarrow> (Return None (Some err), s2)
                   | Inr re \<Rightarrow>
                       if \<not> re (ARN requestedIdentity)
                       then (Return (Some (namespacePolicyForbidden e (ARN requestedIdentity))) None, s2)
                       else (Return (Some allowed) None, s2)))))"

subsection \<open>The Go regular expressions the examples need\<close>

text \<open>
  Modelled from the spec: the package \<open>regexp\<close> is Go's standard library and not part of
  the repository. The spec says that the expression is compiled as a regular expression,
  that anchoring it at both ends makes a full-string match, and that matching is
  otherwise an unanchored substring match. The model covers a fragment of the documented
  syntax: literal ASCII characters, \<open>.\<close>, \<open>^\<close>, \<open>$\<close>, the postfix operators \<open>*\<close>, \<open>+\<close>,
  \<open>?\<close> (and their non-greedy forms), \<open>|\<close> and capturing groups, with the library's
  precedence: repetition binds tighter than concatenation, concatenation tighter than
  alternation. An expression using anything else (a backslash, a bracket, a brace, a
  group starting with \<open>(?\<close>, a byte beyond ASCII) gets the code \<open>OutsideFragment\<close>: the
  model says nothing about it. \<open>Compile\<close> uses the Perl flags, under which \<open>^\<close> and \<open>$\<close>
  match at the beginning and at the end of the text only, \<open>.\<close> matches any character but
  the newline, and a repetition operator may not follow another. The library's limits on
  the size and the nesting depth of an expression are left out, and the text matched is
  taken to be ASCII, one byte a character.
\<close>

datatype Regexp =
    EmptyMatch
  | Literal char
  | AnyCharNotNL
  | BeginText
  | EndText
  | Capture Regexp
  | Star Regexp
  | Plus Regexp
  | Quest Regexp
  | Concat Regexp Regexp
  | Alternate Regexp Regexp

fun concat_of :: "Regexp list \<Rightarrow> Regexp" where
  "concat_of [] = EmptyMatch"
| "concat_of [r] = r"
| "concat_of (r # rs) = Concat r (concat_of rs)"

fun alternate_of :: "Regexp list \<Rightarrow> Regexp" where
  "alternate_of [] = EmptyMatch"
| "alternate_of [r] = r"
| "alternate_of (r # rs) = Alternate r (alternate_of rs)"

text \<open>
  The parser keeps, for the group being read, the alternatives already finished and the
  items of the alternative being read, both latest first. \<open>collapse\<close> closes a group.
\<close>

definition collapse :: "Regexp list \<Rightarrow> Regexp list \<Rightarrow> Regexp" where
  "collapse alts items = alternate_of (rev (concat_of (rev items) # alts))"

definition is_literal :: "char \<Rightarrow> bool" where
  "is_literal c = ((of_char c :: nat) < 128 \<and> c \<notin> set (CHR 0x5C # ''.+*?()|[]{}^$''))"

definition repeat_op :: "char \<Rightarrow> Regexp \<Rightarrow> Regexp" where
  "repeat_op c r = (if c = CHR ''*'' then Star r else if c = CHR ''+'' then Plus r else Quest r)"

definition skip_lazy :: "string \<Rightarrow> string" where
  "skip_lazy t = (case t of [] \<Rightarrow> [] | c # u \<Rightarrow> if c = CHR ''?'' then u else t)"

text \<open>
  \<open>parse stack alts items lastRepeat t\<close>: \<open>stack\<close> holds what was being read when each
  enclosing group opened; \<open>lastRepeat\<close> says that the token before was a repetition
  operator, which may not be followed by another one.
\<close>

function parse ::
  "(Regexp list \<times> Regexp list) list \<Rightarrow> Regexp list \<Rightarrow> Regexp list \<Rightarrow> bool \<Rightarrow> string
     \<Rightarrow> ErrorCode + Regexp" where
  "parse stack alts items lastRepeat [] =
     (if stack = [] then Inr (collapse alts items) else Inl ErrMissingParen)"
| "parse stack alts items lastRepeat (c # t) =
     (if c = CHR ''('' then
        (if t \<noteq> [] \<and> hd t = CHR ''?'' then Inl OutsideFragment
         else parse ((alts, items) # stack) [] [] False t)
      else if c = CHR ''|'' then parse stack (concat_of (rev items) # alts) [] False t
      else if c = CHR '')'' then
        (case stack of
           [] \<Rightarrow> Inl ErrUnexpectedParen
         | (alts', items') # stack' \<Rightarrow>
             parse stack' alts' (Capture (collapse alts items) # items') False t)
      else if c = CHR ''^'' then parse stack alts (BeginText # items) False t
      else if c = CHR ''$'' then parse stack alts (EndText # items) False t
      else if c = CHR ''.'' then parse stack alts (AnyCharNotNL # items) False t
      else if c = CHR ''*'' \<or> c = CHR ''+'' \<or> c = CHR ''?'' then
        (if lastRepeat then Inl ErrInvalidRepeatOp
         else
           (case items of
              [] \<Rightarrow> Inl ErrMissingRepeatArgument
            | r # rs \<Rightarrow> parse stack alts (repeat_op c r # rs) True (skip_lazy t)))
      else if is_literal c then parse stack alts (Literal c # items) False t
      else Inl OutsideFragment)"
  by pat_completeness auto
termination
  by (relation "measure (\<lambda>(stack, alts, items, lastRepeat, t). length t)")
     (auto simp: skip_lazy_def split: list.splits)

definition syntax_Parse :: "string \<Rightarrow> ErrorCode + Regexp" where
  "syntax_Parse e = parse [] [] [] False e"

text \<open>
  \<open>ends r s P\<close> lists the positions of \<open>s\<close> at which a match of \<open>r\<close> that begins at a
  position of \<open>P\<close> can end. For a star the positions reached are collected round by
  round; there are \<open>length s + 1\<close> positions, so as many rounds reach them all.
\<close>

fun rounds :: "nat \<Rightarrow> (nat list \<Rightarrow> nat list) \<Rightarrow> nat list \<Rightarrow> nat list" where
  "rounds 0 f P = P"
| "rounds (Suc n) f P = rounds n f (List.union P (f P))"

primrec ends :: "Regexp \<Rightarrow> string \<Rightarrow> nat list \<Rightarrow> nat list" where
  "ends EmptyMatch s P = P"
| "ends (Literal c) s P = map Suc (filter (\<lambda>i. i < length s \<and> s ! i = c) P)"
| "ends AnyCharNotNL s P = map Suc (filter (\<lambda>i. i < length s \<and> s ! i \<noteq> CHR 0x0A) P)"
| "ends BeginText s P = filter (\<lambda>i. i = 0) P"
| "ends EndText s P = filter (\<lambda>i. i = length s) P"
| "ends (Capture r) s P = ends r s P"
| "ends (Star r) s P = rounds (Suc (length s)) (ends r s) P"
| "ends (Plus r) s P = rounds (Suc (length s)) (ends r s) (ends r s P)"
| "ends (Quest r) s P = List.union P (ends r s P)"
| "ends (Concat r1 r2) s P = ends r2 s (ends r1 s P)"
| "ends (Alternate r1 r2) s P = List.union (ends r1 s P) (ends r2 s P)"

text \<open>\<open>MatchString\<close> reports whether the string contains any match of the expression.\<close>

definition MatchString :: "Regexp \<Rightarrow> string \<Rightarrow> bool" where
  "MatchString re s = (ends re s [0..<Suc (length s)] \<noteq> [])"

text \<open>A full-string match: one that begins at position 0 and ends at the end.\<close>

definition full_match :: "Regexp \<Rightarrow> string \<Rightarrow> bool" where
  "full_match re s = (length s \<in> set (ends re s [0]))"

definition Compile :: "string \<Rightarrow> error + (string \<Rightarrow> bool)" where
  "Compile e = (case syntax_Parse e of Inl code \<Rightarrow> Inl (syntaxError code) | Inr re \<Rightarrow> Inr (MatchString re))"

subsection \<open>Dispatch over the package's policies\<close>

text \<open>
  The three implementations of \<open>AssumeRolePolicy\<close> in the package, a composite holding
  policies of the same three kinds, and the method call on a value of the interface.
\<close>

datatype ('c, 's) policy =
    CompositePolicy "('c, 's) policy list"
  | AnnotatedRolePolicy "'s RequestingAnnotatedRolePolicy"
  | NamespacePolicy "('c, 's) NamespacePermittedRoleNamePolicy"

primrec IsAllowedAssumeRole :: "packages \<Rightarrow> ('c, 's) policy \<Rightarrow> ('c, 's) AssumeRolePolicy" where
  "IsAllowedAssumeRole x (CompositePolicy ps) =
     Composite_IsAllowedAssumeRole (Policies (map (IsAllowedAssumeRole x) ps))"
| "IsAllowedAssumeRole x (AnnotatedRolePolicy p) = Requesting_IsAllowedAssumeRole x p"
| "IsAllowedAssumeRole x (NamespacePolicy p) = Namespace_IsAllowedAssumeRole x p"

subsection \<open>Vocabulary of the properties\<close>

text \<open>
  \<open>thread ps ctx role pod s\<close> is the state left by invoking the policies \<open>ps\<close> one after
  the other from \<open>s\<close>, and \<open>member_result ps ctx role pod s i\<close> what member \<open>i\<close> returns
  when it is invoked in the state left by the members before it.
\<close>

fun thread :: "('c, 's) AssumeRolePolicy list \<Rightarrow> 'c \<Rightarrow> string \<Rightarrow> Pod \<Rightarrow> 's \<Rightarrow> 's" where
  "thread [] ctx role pod s = s"
| "thread (p # ps) ctx role pod s = thread ps ctx role pod (snd (p ctx role pod s))"

definition member_result ::
  "('c, 's) AssumeRolePolicy list \<Rightarrow> 'c \<Rightarrow> string \<Rightarrow> Pod \<Rightarrow> 's \<Rightarrow> nat \<Rightarrow> outcome" where
  "member_result ps ctx role pod s i = fst ((ps ! i) ctx role pod (thread (take i ps) ctx role pod s))"

definition returns_decision :: "outcome \<Rightarrow> bool" where
  "returns_decision r = (case r of Return (Some d) None \<Rightarrow> True | _ \<Rightarrow> False)"

definition returns_allow :: "outcome \<Rightarrow> bool" where
  "returns_allow r = (case r of Return (Some d) None \<Rightarrow> IsAllowed d | _ \<Rightarrow> False)"

definition returns_deny :: "outcome \<Rightarrow> bool" where
  "returns_deny r = (case r of Return (Some d) None \<Rightarrow> \<not> IsAllowed d | _ \<Rightarrow> False)"

text \<open>Every member of \<open>ps\<close>, invoked in its turn, returns an allowing Decision and no error.\<close>

definition all_allow :: "('c, 's) AssumeRolePolicy list \<Rightarrow> 'c \<Rightarrow> string \<Rightarrow> Pod \<Rightarrow> 's \<Rightarrow> bool" where
  "all_allow ps ctx role pod s = (\<forall>j<length ps. returns_allow (member_result ps ctx role pod s j))"

text \<open>
  The contract of a result pair: a non-nil error comes with a nil Decision, a nil error
  with a non-nil Decision; a panic returns neither.
\<close>

definition exactly_one :: "outcome \<Rightarrow> bool" where
  "exactly_one r =
     (case r of
        Return d e \<Rightarrow> (e \<noteq> None \<longrightarrow> d = None) \<and> (e = None \<longrightarrow> d \<noteq> None)
      | Panic \<Rightarrow> False)"

subsection \<open>Collaborators and members of the examples\<close>

text \<open>
  The state of the examples is the log of the calls made so far. The resolver of the
  examples takes an identifier that begins with \<open>arn:\<close> as it is, named by what follows
  its last slash, qualifies a short name with the account's prefix, and refuses the
  empty string.
\<close>

definition after_slash :: "string \<Rightarrow> string" where
  "after_slash r = rev (takeWhile (\<lambda>c. c \<noteq> CHR ''/'') (rev r))"

definition example_resolver :: "string list ARNResolver" where
  "example_resolver r s =
     (if r = '''' then (Inl (errorString ''role cannot be empty''), s @ [''Resolve''])
      else if take 4 r = ''arn:'' then (Inr \<lparr>Name = after_slash r, ARN = r\<rparr>, s @ [''Resolve''])
      else (Inr \<lparr>Name = r, ARN = ''arn:aws:iam::111:role/'' @ r\<rparr>, s @ [''Resolve'']))"

text \<open>
  The namespace finder of the examples knows the namespace \<open>open\<close>, whose annotations
  are given, the namespace \<open>bare\<close> without annotation, and no other.
\<close>

definition example_namespaces :: "(string \<rightharpoonup> string) \<Rightarrow> (unit, string list) NamespaceFinder" where
  "example_namespaces anns ctx name s =
     (if name = ''open'' then (Inr \<lparr>Namespace = '''', Annotations = anns\<rparr>, s @ [''FindNamespace''])
      else if name = ''bare'' then (Inr \<lparr>Namespace = '''', Annotations = Map.empty\<rparr>, s @ [''FindNamespace''])
      else (Inl (errorString ''namespace not found''), s @ [''FindNamespace'']))"

definition example_packages :: packages where
  "example_packages =
     \<lparr>PodRole = (\<lambda>pod. map_index (Annotations pod) ''iam.amazonaws.com/role''),
      AnnotationPermittedKey = ''iam.amazonaws.com/permitted'',
      Equals = (\<lambda>a b. a = b),
      regexp_Compile = Compile\<rparr>"

definition example_pod :: "string \<Rightarrow> string \<Rightarrow> Pod" where
  "example_pod ns r = \<lparr>Namespace = ns, Annotations = [''iam.amazonaws.com/role'' \<mapsto> r]\<rparr>"

definition permitted :: "string \<Rightarrow> (string \<rightharpoonup> string)" where
  "permitted e = [''iam.amazonaws.com/permitted'' \<mapsto> e]"

text \<open>Three members that log their call: one allows, one denies, one fails.\<close>

definition allowing_member :: "(unit, string list) AssumeRolePolicy" where
  "allowing_member ctx r pod s = (Return (Some allowed) None, s @ [''allowing''])"

definition denying_member :: "(unit, string list) AssumeRolePolicy" where
  "denying_member ctx r pod s = (Return (Some (forbidden r ''other'')) None, s @ [''denying''])"

definition failing_member :: "(unit, string list) AssumeRolePolicy" where
  "failing_member ctx r pod s = (Return None (Some (errorString ''lookup failed'')), s @ [''failing''])"

section \<open>The composite runs its members in order and stops at the first that does not allow\<close>

lemma member_result_0: "member_result (p # ps) ctx role pod s 0 = fst (p ctx role pod s)"
  by (simp add: member_result_def)

lemma member_result_Suc:
  "member_result (p # ps) ctx role pod s (Suc i) = member_result ps ctx role pod (snd (p ctx role pod s)) i"
  by (simp add: member_result_def)

lemma all_allow_Cons:
  "all_allow (p # ps) ctx role pod s \<longleftrightarrow>
     returns_allow (fst (p ctx role pod s)) \<and> all_allow ps ctx role pod (snd (p ctx role pod s))"
proof -
  have "(\<forall>j<Suc (length ps). returns_allow (member_result (p # ps) ctx role pod s j)) \<longleftrightarrow>
        returns_allow (member_result (p # ps) ctx role pod s 0) \<and>
        (\<forall>j<length ps. returns_allow (member_result (p # ps) ctx role pod s (Suc j)))"
    by (rule All_less_Suc2)
  then show ?thesis
    by (simp add: all_allow_def member_result_0 member_result_Suc)
qed

lemma returns_allow_step:
  assumes "returns_allow (fst (p ctx role pod s))"
  shows "range_policies (p # rest) ctx role pod s = range_policies rest ctx role pod (snd (p ctx role pod s))"
  using assms
  by (cases "p ctx role pod s")
     (auto simp: returns_allow_def split: outcome.splits option.splits)

lemma range_policies_prefix:
  "all_allow ps ctx role pod s \<Longrightarrow>
   range_policies (ps @ qs) ctx role pod s = range_policies qs ctx role pod (thread ps ctx role pod s)"
proof (induction ps arbitrary: s)
  case Nil
  show ?case by simp
next
  case (Cons p ps)
  from Cons.prems have hd: "returns_allow (fst (p ctx role pod s))"
    and tl: "all_allow ps ctx role pod (snd (p ctx role pod s))"
    by (simp_all add: all_allow_Cons)
  have "range_policies ((p # ps) @ qs) ctx role pod s =
        range_policies (ps @ qs) ctx role pod (snd (p ctx role pod s))"
    using returns_allow_step [of p ctx role pod s "ps @ qs"] hd by simp
  also have "\<dots> = range_policies qs ctx role pod (thread ps ctx role pod (snd (p ctx role pod s)))"
    by (rule Cons.IH [OF tl])
  finally show ?case by simp
qed

lemma denial_iff:
  "\<forall>i<length ps. returns_decision (member_result ps ctx role pod s i) \<Longrightarrow>
   returns_decision (fst (range_policies ps ctx role pod s)) \<and>
   (returns_deny (fst (range_policies ps ctx role pod s)) \<longleftrightarrow>
      (\<exists>i<length ps. returns_deny (member_result ps ctx role pod s i)))"
proof (induction ps arbitrary: s)
  case Nil
  show ?case by (simp add: returns_decision_def returns_deny_def)
next
  case (Cons p ps)
  have split_all: "(\<forall>i<Suc (length ps). returns_decision (member_result (p # ps) ctx role pod s i)) \<longleftrightarrow>
      returns_decision (member_result (p # ps) ctx role pod s 0) \<and>
      (\<forall>i<length ps. returns_decision (member_result (p # ps) ctx role pod s (Suc i)))"
    by (rule All_less_Suc2)
  have split_ex: "(\<exists>i<Suc (length ps). returns_deny (member_result (p # ps) ctx role pod s i)) \<longleftrightarrow>
      returns_deny (member_result (p # ps) ctx role pod s 0) \<or>
      (\<exists>i<length ps. returns_deny (member_result (p # ps) ctx role pod s (Suc i)))"
    by (rule Ex_less_Suc2)
  from Cons.prems split_all have hd: "returns_decision (fst (p ctx role pod s))"
    and tl: "\<forall>i<length ps. returns_decision (member_result ps ctx role pod (snd (p ctx role pod s)) i)"
    by (simp_all add: member_result_0 member_result_Suc)
  note IH = Cons.IH [OF tl]
  obtain d s' where p: "p ctx role pod s = (Return (Some d) None, s')"
    using hd by (cases "p ctx role pod s") (auto simp: returns_decision_def split: outcome.splits option.splits)
  show ?case
  proof (cases "IsAllowed d")
    case True
    then have "range_policies (p # ps) ctx role pod s = range_policies ps ctx role pod s'"
      using p by simp
    moreover have "\<not> returns_deny (fst (p ctx role pod s))"
      using p True by (simp add: returns_deny_def)
    ultimately show ?thesis
      using IH p split_ex by (simp add: member_result_0 member_result_Suc)
  next
    case False
    then have run: "fst (range_policies (p # ps) ctx role pod s) = Return (Some d) None"
      using p by simp
    have "returns_deny (member_result (p # ps) ctx role pod s 0)"
      using p False by (simp add: returns_deny_def member_result_0)
    then have ex: "\<exists>i<length (p # ps). returns_deny (member_result (p # ps) ctx role pod s i)"
      by (intro exI [of _ 0]) simp
    have "returns_decision (Return (Some d) None)" "returns_deny (Return (Some d) None)"
      using False by (simp_all add: returns_decision_def returns_deny_def)
    with run ex show ?thesis by simp
  qed
qed


lemma range_policies_stops_at_denial:
  assumes "all_allow ps1 ctx role pod s"
    and "p ctx role pod (thread ps1 ctx role pod s) = (Return (Some d) None, s')"
    and "\<not> IsAllowed d"
  shows "range_policies (ps1 @ p # ps2) ctx role pod s = (Return (Some d) None, s')"
  using range_policies_prefix [OF assms(1), of "p # ps2"] assms(2,3) by simp

lemma range_policies_stops_at_error:
  assumes "all_allow ps1 ctx role pod s"
    and "p ctx role pod (thread ps1 ctx role pod s) = (Return d (Some e), s')"
  shows "range_policies (ps1 @ p # ps2) ctx role pod s = (Return None (Some e), s')"
  using range_policies_prefix [OF assms(1), of "p # ps2"] assms(2) by simp

text \<open>
  C2. When every member, invoked in its turn, returns a Decision and no error, the
  composite returns a Decision, and that Decision denies if and only if some member's
  does. When the members \<open>ps1\<close> allow and the next member \<open>p\<close> returns a Decision \<open>d\<close> that
  does not allow, the composite returns \<open>d\<close> itself and leaves the state as \<open>p\<close> left it,
  whatever members \<open>ps2\<close> follow: none of them is invoked. The composite of no policy
  allows.
\<close>

theorem composite_conjunction:
  "((\<forall>i<length ps. returns_decision (member_result ps ctx role pod s i)) \<longrightarrow>
      returns_decision (fst (Composite_IsAllowedAssumeRole (Policies ps) ctx role pod s)) \<and>
      (returns_deny (fst (Composite_IsAllowedAssumeRole (Policies ps) ctx role pod s)) \<longleftrightarrow>
         (\<exists>i<length ps. returns_deny (member_result ps ctx role pod s i)))) \<and>
   (all_allow ps1 ctx role pod s \<and>
    p ctx role pod (thread ps1 ctx role pod s) = (Return (Some d) None, s') \<and> \<not> IsAllowed d \<longrightarrow>
      Composite_IsAllowedAssumeRole (Policies (ps1 @ p # ps2)) ctx role pod s
        = (Return (Some d) None, s')) \<and>
   Composite_IsAllowedAssumeRole (Policies []) ctx role pod s = (Return (Some allowed) None, s)"
proof (intro conjI impI)
  assume "\<forall>i<length ps. returns_decision (member_result ps ctx role pod s i)"
  from denial_iff [OF this]
  show "returns_decision (fst (Composite_IsAllowedAssumeRole (Policies ps) ctx role pod s))"
    and "returns_deny (fst (Composite_IsAllowedAssumeRole (Policies ps) ctx role pod s)) \<longleftrightarrow>
         (\<exists>i<length ps. returns_deny (member_result ps ctx role pod s i))"
    by (simp_all add: Composite_IsAllowedAssumeRole_def Policies_def)
next
  assume "all_allow ps1 ctx role pod s \<and>
    p ctx role pod (thread ps1 ctx role pod s) = (Return (Some d) None, s') \<and> \<not> IsAllowed d"
  then show "Composite_IsAllowedAssumeRole (Policies (ps1 @ p # ps2)) ctx role pod s
        = (Return (Some d) None, s')"
    using range_policies_stops_at_denial [of ps1 ctx role pod s p d s' ps2]
    by (simp add: Composite_IsAllowedAssumeRole_def Policies_def)
next
  show "Composite_IsAllowedAssumeRole (Policies []) ctx role pod s = (Return (Some allowed) None, s)"
    by (simp add: Composite_IsAllowedAssumeRole_def Policies_def)
qed

lemma example_members_decide:
  "\<forall>i<length [allowing_member, denying_member, allowing_member].
     returns_decision (member_result [allowing_member, denying_member, allowing_member] ()
       ''admin'' (example_pod ''open'' ''readonly'') [] i)"
  by (simp add: All_less_Suc member_result_def returns_decision_def allowing_member_def denying_member_def)

lemma example_prefix_allows:
  "all_allow [allowing_member] () ''admin'' (example_pod ''open'' ''readonly'') []"
  by (simp add: all_allow_def member_result_def returns_allow_def allowing_member_def)

theorem composite_conjunction_witness:
  "returns_deny (fst (Composite_IsAllowedAssumeRole
      (Policies [allowing_member, denying_member, allowing_member]) ()
      ''admin'' (example_pod ''open'' ''readonly'') [])) \<and>
   Composite_IsAllowedAssumeRole (Policies ([allowing_member] @ denying_member # [failing_member])) ()
      ''admin'' (example_pod ''open'' ''readonly'') []
     = (Return (Some (forbidden ''admin'' ''other'')) None, [''allowing'', ''denying''])"
proof -
  have "\<exists>i<length [allowing_member, denying_member, allowing_member].
     returns_deny (member_result [allowing_member, denying_member, allowing_member] ()
       ''admin'' (example_pod ''open'' ''readonly'') [] i)"
    by (intro exI [of _ "Suc 0"])
       (simp add: member_result_def returns_deny_def allowing_member_def denying_member_def)
  moreover have "denying_member () ''admin'' (example_pod ''open'' ''readonly'')
       (thread [allowing_member] () ''admin'' (example_pod ''open'' ''readonly'') [])
     = (Return (Some (forbidden ''admin'' ''other'')) None, [''allowing'', ''denying''])"
    by (simp add: allowing_member_def denying_member_def)
  ultimately show ?thesis
    using composite_conjunction [of "[allowing_member, denying_member, allowing_member]" "()"
        "''admin''" "example_pod ''open'' ''readonly''" "[]" "[allowing_member]" denying_member
        "forbidden ''admin'' ''other''" "[''allowing'', ''denying'']" "[failing_member]"]
      example_members_decide example_prefix_allows
    by simp
qed

text \<open>
  C3, as stated, fails when a member that denies stands before the member that fails:
  the composite returns the denial, with a nil error, and never invokes the failing member.
\<close>

theorem composite_first_error_counterexample:
  "fst (failing_member () ''admin'' (example_pod ''open'' ''readonly'') [''denying''])
     = Return None (Some (errorString ''lookup failed'')) \<and>
   Composite_IsAllowedAssumeRole (Policies [denying_member, failing_member]) ()
      ''admin'' (example_pod ''open'' ''readonly'') []
     = (Return (Some (forbidden ''admin'' ''other'')) None, [''denying''])"
  by (simp add: Composite_IsAllowedAssumeRole_def Policies_def denying_member_def failing_member_def)

text \<open>
  C3, amended. When the members \<open>ps1\<close> allow and the next member \<open>p\<close> returns a non-nil
  error \<open>e\<close>, the composite returns \<open>e\<close> with a nil Decision and leaves the state as
  \<open>p\<close> left it, whatever members \<open>ps2\<close> follow: none of them is invoked.
\<close>

theorem composite_first_error:
  assumes "all_allow ps1 ctx role pod s"
    and "p ctx role pod (thread ps1 ctx role pod s) = (Return d (Some e), s')"
  shows "Composite_IsAllowedAssumeRole (Policies (ps1 @ p # ps2)) ctx role pod s
           = (Return None (Some e), s')"
  using range_policies_stops_at_error [of ps1 ctx role pod s p d e s' ps2] assms
  by (simp add: Composite_IsAllowedAssumeRole_def Policies_def)

theorem composite_first_error_witness:
  "Composite_IsAllowedAssumeRole (Policies ([allowing_member] @ failing_member # [denying_member])) ()
      ''admin'' (example_pod ''open'' ''readonly'') []
     = (Return None (Some (errorString ''lookup failed'')), [''allowing'', ''failing''])"
proof -
  have "failing_member () ''admin'' (example_pod ''open'' ''readonly'')
       (thread [allowing_member] () ''admin'' (example_pod ''open'' ''readonly'') [])
     = (Return None (Some (errorString ''lookup failed'')), [''allowing'', ''failing''])"
    by (simp add: allowing_member_def failing_member_def)
  with example_prefix_allows show ?thesis
    using composite_first_error [of "[allowing_member]" "()" "''admin''"
        "example_pod ''open'' ''readonly''" "[]" failing_member None
        "errorString ''lookup failed''" "[''allowing'', ''failing'']" "[denying_member]"]
    by simp
qed

section \<open>The annotation-match policy\<close>


lemma sublist_quoted: "sublist v (pre @ quoted v @ post)"
  unfolding quoted_def sublist_def by (intro exI [of _ "pre @ [CHR 0x27]"] exI [of _ "[CHR 0x27] @ post"]) simp

lemma forbidden_names_requested: "sublist r (Explanation (forbidden r a))"
  using sublist_quoted [of r "''requested ''" "'' but annotated with '' @ quoted a @ '', forbidden''"]
  by simp

lemma forbidden_names_annotated: "sublist a (Explanation (forbidden r a))"
  using sublist_quoted [of a "''requested '' @ quoted r @ '' but annotated with ''" "'', forbidden''"]
  by simp




section \<open>The namespace-permission policy\<close>

lemma Namespace_found:
  assumes "ns_resolver p role s = (Inr r, s1)"
    and "namespaces p ctx (Namespace pod) s1 = (Inr ns, s2)"
  shows "Namespace_IsAllowedAssumeRole x p ctx role pod s =
     (let e = map_index (Annotations ns) (AnnotationPermittedKey x) in
      if e = '''' then (Return (Some (namespacePolicyForbidden ''(empty)'' role)) None, s2)
      else
        (case regexp_Compile x (compiled_text (strict p) e) of
           Inl err \<Rightarrow> (Return None (Some err), s2)
         | Inr re \<Rightarrow>
             if \<not> re (ARN r)
             then (Return (Some (namespacePolicyForbidden e (ARN r))) None, s2)
             else (Return (Some allowed) None, s2)))"
  using assms by (simp add: Namespace_IsAllowedAssumeRole_def)

lemma map_index_empty:
  "m k = None \<or> m k = Some '''' \<longleftrightarrow> map_index m k = ''''"
  by (auto simp: map_index_def split: option.splits)

lemma namespace_forbidden_names_expression: "sublist e (Explanation (namespacePolicyForbidden e r))"
  using sublist_quoted [of e "''namespace policy expression ''" "'' forbids role '' @ quoted r"]
  by simp

lemma namespace_forbidden_names_role: "sublist r (Explanation (namespacePolicyForbidden e r))"
  using sublist_quoted [of r "''namespace policy expression '' @ quoted e @ '' forbids role ''" "[]"]
  by simp

text \<open>
  C5, as stated, fails for a requested role that does not resolve: the policy resolves
  the role before it looks at the namespace, and returns the resolver's error, not a
  Decision, although the pod's namespace has no annotation.
\<close>

theorem empty_annotation_counterexample:
  "fst (example_namespaces Map.empty () (Namespace (example_pod ''bare'' ''readonly'')) [''Resolve''])
     = Inr \<lparr>Namespace = '''', Annotations = Map.empty\<rparr> \<and>
   Namespace_IsAllowedAssumeRole example_packages
      (NewNamespacePermittedRoleNamePolicy True (example_namespaces Map.empty) example_resolver) ()
      '''' (example_pod ''bare'' ''readonly'') []
     = (Return None (Some (errorString ''role cannot be empty'')), [''Resolve''])"
  by (simp add: Namespace_IsAllowedAssumeRole_def NewNamespacePermittedRoleNamePolicy_def
      example_resolver_def example_namespaces_def example_pod_def)

text \<open>
  C5, amended. When the requested role resolves and the pod's namespace is found, and
  the namespace has no permission-expression annotation or an empty one, the policy
  returns a Decision that does not allow, with the explanation
  "namespace policy expression '(empty)' forbids role 'R'", \<open>R\<close> the requested role string.
\<close>

theorem empty_annotation_denies:
  assumes "ns_resolver p role s = (Inr r, s1)"
    and "namespaces p ctx (Namespace pod) s1 = (Inr ns, s2)"
    and "Annotations ns (AnnotationPermittedKey x) = None \<or>
         Annotations ns (AnnotationPermittedKey x) = Some ''''"
  shows "Namespace_IsAllowedAssumeRole x p ctx role pod s
           = (Return (Some (namespacePolicyForbidden ''(empty)'' role)) None, s2) \<and>
         \<not> IsAllowed (namespacePolicyForbidden ''(empty)'' role) \<and>
         Explanation (namespacePolicyForbidden ''(empty)'' role)
           = ''namespace policy expression '' @ quoted ''(empty)'' @ '' forbids role '' @ quoted role \<and>
         sublist ''(empty)'' (Explanation (namespacePolicyForbidden ''(empty)'' role)) \<and>
         sublist role (Explanation (namespacePolicyForbidden ''(empty)'' role))"
proof -
  from assms(3) have "map_index (Annotations ns) (AnnotationPermittedKey x) = ''''"
    by (simp only: map_index_empty)
  with Namespace_found [OF assms(1,2), of x]
  have "Namespace_IsAllowedAssumeRole x p ctx role pod s
           = (Return (Some (namespacePolicyForbidden ''(empty)'' role)) None, s2)"
    by simp
  then show ?thesis
    using namespace_forbidden_names_expression [of "''(empty)''" role]
      namespace_forbidden_names_role [of role "''(empty)''"]
    by simp
qed

theorem empty_annotation_denies_witness:
  "Namespace_IsAllowedAssumeRole example_packages
      (NewNamespacePermittedRoleNamePolicy True (example_namespaces Map.empty) example_resolver) ()
      ''admin'' (example_pod ''bare'' ''readonly'') []
     = (Return (Some (namespacePolicyForbidden ''(empty)'' ''admin'')) None, [''Resolve'', ''FindNamespace'']) \<and>
   Namespace_IsAllowedAssumeRole example_packages
      (NewNamespacePermittedRoleNamePolicy False (example_namespaces (permitted '''')) example_resolver) ()
      ''admin'' (example_pod ''open'' ''readonly'') []
     = (Return (Some (namespacePolicyForbidden ''(empty)'' ''admin'')) None, [''Resolve'', ''FindNamespace''])"
  using empty_annotation_denies [of
      "NewNamespacePermittedRoleNamePolicy True (example_namespaces Map.empty) example_resolver"
      "''admin''" "[]" "\<lparr>Name = ''admin'', ARN = ''arn:aws:iam::111:role/admin''\<rparr>" "[''Resolve'']"
      "()" "example_pod ''bare'' ''readonly''" "\<lparr>Namespace = '''', Annotations = Map.empty\<rparr>"
      "[''Resolve'', ''FindNamespace'']" example_packages]
    empty_annotation_denies [of
      "NewNamespacePermittedRoleNamePolicy False (example_namespaces (permitted '''')) example_resolver"
      "''admin''" "[]" "\<lparr>Name = ''admin'', ARN = ''arn:aws:iam::111:role/admin''\<rparr>" "[''Resolve'']"
      "()" "example_pod ''open'' ''readonly''" "\<lparr>Namespace = '''', Annotations = permitted ''''\<rparr>"
      "[''Resolve'', ''FindNamespace'']" example_packages]
  by (simp add: NewNamespacePermittedRoleNamePolicy_def example_namespaces_def example_resolver_def
      example_packages_def example_pod_def permitted_def)



section \<open>Failures of collaborators are returned as errors\<close>

lemma Requesting_annotated_fails:
  "fst (resolver p (PodRole x pod) s) = Inl e \<Longrightarrow>
   fst (Requesting_IsAllowedAssumeRole x p ctx role pod s) = Return None (Some e)"
  by (cases "resolver p (PodRole x pod) s") (simp add: Requesting_IsAllowedAssumeRole_def)

lemma Requesting_requested_fails:
  "resolver p (PodRole x pod) s = (Inr a, s1) \<Longrightarrow> fst (resolver p role s1) = Inl e \<Longrightarrow>
   fst (Requesting_IsAllowedAssumeRole x p ctx role pod s) = Return None (Some e)"
  by (cases "resolver p role s1") (simp add: Requesting_IsAllowedAssumeRole_def)

lemma Namespace_resolve_fails:
  "fst (ns_resolver q role s) = Inl e \<Longrightarrow>
   fst (Namespace_IsAllowedAssumeRole x q ctx role pod s) = Return None (Some e)"
  by (cases "ns_resolver q role s") (simp add: Namespace_IsAllowedAssumeRole_def)

lemma Namespace_lookup_fails:
  "ns_resolver q role s = (Inr r, s1) \<Longrightarrow> fst (namespaces q ctx (Namespace pod) s1) = Inl e \<Longrightarrow>
   fst (Namespace_IsAllowedAssumeRole x q ctx role pod s) = Return None (Some e)"
  by (cases "namespaces q ctx (Namespace pod) s1") (simp add: Namespace_IsAllowedAssumeRole_def)

lemma Namespace_compile_fails:
  assumes "ns_resolver q role s = (Inr r, s1)"
    and "namespaces q ctx (Namespace pod) s1 = (Inr ns, s2)"
    and "map_index (Annotations ns) (AnnotationPermittedKey x) \<noteq> ''''"
    and "regexp_Compile x (compiled_text (strict q) (map_index (Annotations ns) (AnnotationPermittedKey x)))
           = Inl e"
  shows "fst (Namespace_IsAllowedAssumeRole x q ctx role pod s) = Return None (Some e)"
  using Namespace_found [OF assms(1,2), of x] assms(3,4) by simp

lemma star_a_does_not_compile:
  "Compile ''*a'' = Inl (syntaxError ErrMissingRepeatArgument)"
proof -
  have "case Compile ''*a'' of
          Inl err \<Rightarrow> err = syntaxError ErrMissingRepeatArgument | Inr re \<Rightarrow> False"
    by code_simp
  then show ?thesis
    by (cases "Compile ''*a''") simp_all
qed

lemma strict_star_a_denies:
  "Namespace_IsAllowedAssumeRole example_packages
      (NewNamespacePermittedRoleNamePolicy True (example_namespaces (permitted ''*a'')) example_resolver) ()
      ''admin'' (example_pod ''open'' ''readonly'') []
     = (Return (Some (namespacePolicyForbidden ''*a'' ''arn:aws:iam::111:role/admin'')) None,
        [''Resolve'', ''FindNamespace''])"
  by code_simp

lemma loose_star_a_fails:
  "Namespace_IsAllowedAssumeRole example_packages
      (NewNamespacePermittedRoleNamePolicy False (example_namespaces (permitted ''*a'')) example_resolver) ()
      ''admin'' (example_pod ''open'' ''readonly'') []
     = (Return None (Some (syntaxError ErrMissingRepeatArgument)), [''Resolve'', ''FindNamespace''])"
  by code_simp

lemma lookup_fails_after_denial:
  "fst (Namespace_IsAllowedAssumeRole example_packages
      (NewNamespacePermittedRoleNamePolicy True (example_namespaces (permitted ''.*'')) example_resolver) ()
      ''admin'' (example_pod ''gone'' ''readonly'') [''Resolve'', ''Resolve''])
     = Return None (Some (errorString ''namespace not found''))"
  by code_simp

lemma composite_denies_before_lookup:
  "Composite_IsAllowedAssumeRole
     (Policies [Requesting_IsAllowedAssumeRole example_packages
                  (NewRequestingAnnotatedRolePolicy example_resolver),
                Namespace_IsAllowedAssumeRole example_packages
                  (NewNamespacePermittedRoleNamePolicy True
                     (example_namespaces (permitted ''.*'')) example_resolver)])
     () ''admin'' (example_pod ''gone'' ''readonly'') []
   = (Return (Some (forbidden ''admin'' ''readonly'')) None, [''Resolve'', ''Resolve''])"
  by code_simp

text \<open>
  C7, as stated, fails in two places. The composite of the annotation-match policy and
  the namespace-permission policy returns the first policy's denial for a pod whose
  namespace cannot be found: the lookup, which fails in the state the first policy
  leaves, is never made. And in strict mode the expression \<open>*a\<close>, which does not
  compile, is compiled between \<open>^\<close> and \<open>$\<close>, where it does: the policy returns a Decision
  that denies, with a nil error, where the non-strict policy returns the error.
\<close>

theorem failures_are_errors_counterexample:
  "fst (Namespace_IsAllowedAssumeRole example_packages
      (NewNamespacePermittedRoleNamePolicy True (example_namespaces (permitted ''.*'')) example_resolver) ()
      ''admin'' (example_pod ''gone'' ''readonly'') [''Resolve'', ''Resolve''])
     = Return None (Some (errorString ''namespace not found'')) \<and>
   Composite_IsAllowedAssumeRole
     (Policies [Requesting_IsAllowedAssumeRole example_packages
                  (NewRequestingAnnotatedRolePolicy example_resolver),
                Namespace_IsAllowedAssumeRole example_packages
                  (NewNamespacePermittedRoleNamePolicy True
                     (example_namespaces (permitted ''.*'')) example_resolver)])
     () ''admin'' (example_pod ''gone'' ''readonly'') []
     = (Return (Some (forbidden ''admin'' ''readonly'')) None, [''Resolve'', ''Resolve'']) \<and>
   Compile ''*a'' = Inl (syntaxError ErrMissingRepeatArgument) \<and>
   Namespace_IsAllowedAssumeRole example_packages
      (NewNamespacePermittedRoleNamePolicy True (example_namespaces (permitted ''*a'')) example_resolver) ()
      ''admin'' (example_pod ''open'' ''readonly'') []
     = (Return (Some (namespacePolicyForbidden ''*a'' ''arn:aws:iam::111:role/admin'')) None,
        [''Resolve'', ''FindNamespace'']) \<and>
   Namespace_IsAllowedAssumeRole example_packages
      (NewNamespacePermittedRoleNamePolicy False (example_namespaces (permitted ''*a'')) example_resolver) ()
      ''admin'' (example_pod ''open'' ''readonly'') []
     = (Return None (Some (syntaxError ErrMissingRepeatArgument)), [''Resolve'', ''FindNamespace''])"
  by (intro conjI lookup_fails_after_denial composite_denies_before_lookup star_a_does_not_compile
      strict_star_a_denies loose_star_a_fails)

text \<open>
  C7, amended. A failure of a collaborator comes back as the error itself, with a nil
  Decision, never as a Decision that denies: in the annotation-match policy when the
  annotated or the requested role does not resolve; in the namespace-permission policy
  when the requested role does not resolve, when the namespace is not found, when in
  non-strict mode the expression does not compile, and when in strict mode the
  expression does not compile and does not compile between \<open>^\<close> and \<open>$\<close> either; in the
  composite when the members \<open>ps1\<close> allow and the next member returns an error. Of an
  expression that does not compile but compiles between \<open>^\<close> and \<open>$\<close> nothing is said.
\<close>

theorem failures_are_errors:
  "(fst (resolver p (PodRole x pod) s) = Inl e \<longrightarrow>
      fst (Requesting_IsAllowedAssumeRole x p ctx role pod s) = Return None (Some e)) \<and>
   (resolver p (PodRole x pod) s = (Inr a, s1) \<and> fst (resolver p role s1) = Inl e \<longrightarrow>
      fst (Requesting_IsAllowedAssumeRole x p ctx role pod s) = Return None (Some e)) \<and>
   (fst (ns_resolver q role s) = Inl e \<longrightarrow>
      fst (Namespace_IsAllowedAssumeRole x q ctx role pod s) = Return None (Some e)) \<and>
   (ns_resolver q role s = (Inr r, s1) \<and> fst (namespaces q ctx (Namespace pod) s1) = Inl e \<longrightarrow>
      fst (Namespace_IsAllowedAssumeRole x q ctx role pod s) = Return None (Some e)) \<and>
   (ns_resolver q role s = (Inr r, s1) \<and> namespaces q ctx (Namespace pod) s1 = (Inr ns, s2) \<and>
    map_index (Annotations ns) (AnnotationPermittedKey x) = ex \<and> ex \<noteq> '''' \<and>
    \<not> strict q \<and> regexp_Compile x ex = Inl e \<longrightarrow>
      fst (Namespace_IsAllowedAssumeRole x q ctx role pod s) = Return None (Some e)) \<and>
   (ns_resolver q role s = (Inr r, s1) \<and> namespaces q ctx (Namespace pod) s1 = (Inr ns, s2) \<and>
    map_index (Annotations ns) (AnnotationPermittedKey x) = ex \<and> ex \<noteq> '''' \<and>
    strict q \<and> regexp_Compile x ex = Inl e0 \<and> regexp_Compile x (''^'' @ ex @ ''$'') = Inl e \<longrightarrow>
      fst (Namespace_IsAllowedAssumeRole x q ctx role pod s) = Return None (Some e)) \<and>
   (all_allow ps1 ctx role pod s \<and> fst (m ctx role pod (thread ps1 ctx role pod s)) = Return d (Some e) \<longrightarrow>
      fst (Composite_IsAllowedAssumeRole (Policies (ps1 @ m # ps2)) ctx role pod s) = Return None (Some e))"
proof (intro conjI impI; (elim conjE)?)
  assume "all_allow ps1 ctx role pod s"
    and "fst (m ctx role pod (thread ps1 ctx role pod s)) = Return d (Some e)"
  then show "fst (Composite_IsAllowedAssumeRole (Policies (ps1 @ m # ps2)) ctx role pod s)
      = Return None (Some e)"
    using range_policies_stops_at_error [of ps1 ctx role pod s m d e
        "snd (m ctx role pod (thread ps1 ctx role pod s))" ps2]
    by (cases "m ctx role pod (thread ps1 ctx role pod s)")
       (simp add: Composite_IsAllowedAssumeRole_def Policies_def)
next
  assume "ns_resolver q role s = (Inr r, s1)" "namespaces q ctx (Namespace pod) s1 = (Inr ns, s2)"
    "map_index (Annotations ns) (AnnotationPermittedKey x) = ex" "ex \<noteq> ''''"
    "\<not> strict q" "regexp_Compile x ex = Inl e"
  then show "fst (Namespace_IsAllowedAssumeRole x q ctx role pod s) = Return None (Some e)"
    using Namespace_compile_fails [of q role s r s1 ctx pod ns s2 x e]
    by (simp add: compiled_text_def)
next
  assume "ns_resolver q role s = (Inr r, s1)" "namespaces q ctx (Namespace pod) s1 = (Inr ns, s2)"
    "map_index (Annotations ns) (AnnotationPermittedKey x) = ex" "ex \<noteq> ''''"
    "strict q" "regexp_Compile x (''^'' @ ex @ ''$'') = Inl e"
  then show "fst (Namespace_IsAllowedAssumeRole x q ctx role pod s) = Return None (Some e)"
    using Namespace_compile_fails [of q role s r s1 ctx pod ns s2 x e]
    by (simp add: compiled_text_def)
qed (fact Requesting_annotated_fails Requesting_requested_fails Namespace_resolve_fails
       Namespace_lookup_fails)+

lemma bad_expression_does_not_compile:
  "Compile ''team-(a'' = Inl (syntaxError ErrMissingParen) \<and>
   Compile (''^'' @ ''team-(a'' @ ''$'') = Inl (syntaxError ErrMissingParen)"
proof -
  have "case Compile ''team-(a'' of
          Inl err \<Rightarrow> err = syntaxError ErrMissingParen | Inr re \<Rightarrow> False"
    and "case Compile (''^'' @ ''team-(a'' @ ''$'') of
          Inl err \<Rightarrow> err = syntaxError ErrMissingParen | Inr re \<Rightarrow> False"
    by code_simp+
  then show ?thesis
    by (cases "Compile ''team-(a''"; cases "Compile (''^'' @ ''team-(a'' @ ''$'')") simp_all
qed

theorem failures_are_errors_witness:
  "fst (Requesting_IsAllowedAssumeRole example_packages (NewRequestingAnnotatedRolePolicy example_resolver) ()
      ''admin'' (example_pod ''open'' '''') [])
     = Return None (Some (errorString ''role cannot be empty'')) \<and>
   fst (Requesting_IsAllowedAssumeRole example_packages (NewRequestingAnnotatedRolePolicy example_resolver) ()
      '''' (example_pod ''open'' ''readonly'') [])
     = Return None (Some (errorString ''role cannot be empty'')) \<and>
   fst (Namespace_IsAllowedAssumeRole example_packages
      (NewNamespacePermittedRoleNamePolicy True (example_namespaces (permitted ''team-(a'')) example_resolver) ()
      '''' (example_pod ''open'' ''readonly'') [])
     = Return None (Some (errorString ''role cannot be empty'')) \<and>
   fst (Namespace_IsAllowedAssumeRole example_packages
      (NewNamespacePermittedRoleNamePolicy True (example_namespaces (permitted ''team-(a'')) example_resolver) ()
      ''admin'' (example_pod ''gone'' ''readonly'') [])
     = Return None (Some (errorString ''namespace not found'')) \<and>
   fst (Namespace_IsAllowedAssumeRole example_packages
      (NewNamespacePermittedRoleNamePolicy False (example_namespaces (permitted ''team-(a'')) example_resolver) ()
      ''admin'' (example_pod ''open'' ''readonly'') [])
     = Return None (Some (syntaxError ErrMissingParen)) \<and>
   fst (Namespace_IsAllowedAssumeRole example_packages
      (NewNamespacePermittedRoleNamePolicy True (example_namespaces (permitted ''team-(a'')) example_resolver) ()
      ''admin'' (example_pod ''open'' ''readonly'') [])
     = Return None (Some (syntaxError ErrMissingParen)) \<and>
   fst (Composite_IsAllowedAssumeRole (Policies ([allowing_member] @ failing_member # [denying_member])) ()
      ''admin'' (example_pod ''open'' ''readonly'') [])
     = Return None (Some (errorString ''lookup failed''))"
proof -
  let ?a = "NewRequestingAnnotatedRolePolicy example_resolver"
  let ?n = "NewNamespacePermittedRoleNamePolicy True (example_namespaces (permitted ''team-(a''))
      example_resolver"
  let ?l = "NewNamespacePermittedRoleNamePolicy False (example_namespaces (permitted ''team-(a''))
      example_resolver"
  let ?admin = "\<lparr>Name = ''admin'', ARN = ''arn:aws:iam::111:role/admin''\<rparr>"
  let ?readonly = "\<lparr>Name = ''readonly'', ARN = ''arn:aws:iam::111:role/readonly''\<rparr>"
  let ?ns = "\<lparr>Namespace = '''', Annotations = permitted ''team-(a''\<rparr>"
  note defs = NewRequestingAnnotatedRolePolicy_def NewNamespacePermittedRoleNamePolicy_def
    example_namespaces_def example_resolver_def example_packages_def example_pod_def permitted_def
    map_index_def
  have 1: "fst (Requesting_IsAllowedAssumeRole example_packages ?a () ''admin'' (example_pod ''open'' '''') [])
     = Return None (Some (errorString ''role cannot be empty''))"
    using failures_are_errors [where p = ?a and x = example_packages
        and pod = "example_pod ''open'' ''''" and s = "[]"
        and e = "errorString ''role cannot be empty''" and ctx = "()" and role = "''admin''"]
    by (simp add: defs)
  have 2: "fst (Requesting_IsAllowedAssumeRole example_packages ?a () '''' (example_pod ''open'' ''readonly'') [])
     = Return None (Some (errorString ''role cannot be empty''))"
    using failures_are_errors [where p = ?a and x = example_packages
        and pod = "example_pod ''open'' ''readonly''" and s = "[]"
        and e = "errorString ''role cannot be empty''" and ctx = "()" and role = "''''"
        and a = ?readonly and ?s1.0 = "[''Resolve'']"]
    by (simp add: defs)
  have 3: "fst (Namespace_IsAllowedAssumeRole example_packages ?n () '''' (example_pod ''open'' ''readonly'') [])
     = Return None (Some (errorString ''role cannot be empty''))"
    using failures_are_errors [where q = ?n and x = example_packages
        and pod = "example_pod ''open'' ''readonly''" and s = "[]"
        and e = "errorString ''role cannot be empty''" and ctx = "()" and role = "''''"]
    by (simp add: defs)
  have 4: "fst (Namespace_IsAllowedAssumeRole example_packages ?n () ''admin'' (example_pod ''gone'' ''readonly'') [])
     = Return None (Some (errorString ''namespace not found''))"
    using failures_are_errors [where q = ?n and x = example_packages
        and pod = "example_pod ''gone'' ''readonly''" and s = "[]"
        and e = "errorString ''namespace not found''" and ctx = "()" and role = "''admin''"
        and r = ?admin and ?s1.0 = "[''Resolve'']"]
    by (simp add: defs)
  have 5: "fst (Namespace_IsAllowedAssumeRole example_packages ?l () ''admin'' (example_pod ''open'' ''readonly'') [])
     = Return None (Some (syntaxError ErrMissingParen))"
    using failures_are_errors [where q = ?l and x = example_packages
        and pod = "example_pod ''open'' ''readonly''" and s = "[]"
        and e = "syntaxError ErrMissingParen" and ctx = "()" and role = "''admin''"
        and r = ?admin and ?s1.0 = "[''Resolve'']" and ns = ?ns
        and ?s2.0 = "[''Resolve'', ''FindNamespace'']" and ex = "''team-(a''"]
      bad_expression_does_not_compile
    by (simp add: defs)
  have 6: "fst (Namespace_IsAllowedAssumeRole example_packages ?n () ''admin'' (example_pod ''open'' ''readonly'') [])
     = Return None (Some (syntaxError ErrMissingParen))"
    using failures_are_errors [where q = ?n and x = example_packages
        and pod = "example_pod ''open'' ''readonly''" and s = "[]"
        and e = "syntaxError ErrMissingParen" and ctx = "()" and role = "''admin''"
        and r = ?admin and ?s1.0 = "[''Resolve'']" and ns = ?ns
        and ?s2.0 = "[''Resolve'', ''FindNamespace'']" and ex = "''team-(a''"
        and ?e0.0 = "syntaxError ErrMissingParen"]
      bad_expression_does_not_compile
    by (simp add: defs)
  have 7: "fst (Composite_IsAllowedAssumeRole (Policies ([allowing_member] @ failing_member # [denying_member])) ()
      ''admin'' (example_pod ''open'' ''readonly'') [])
     = Return None (Some (errorString ''lookup failed''))"
    using failures_are_errors [where pod = "example_pod ''open'' ''readonly''" and s = "[]"
        and e = "errorString ''lookup failed''" and ctx = "()" and role = "''admin''"
        and ?ps1.0 = "[allowing_member]" and m = failing_member and d = None
        and ?ps2.0 = "[denying_member]"]
      example_prefix_allows
    by (simp add: allowing_member_def failing_member_def)
  from 1 2 3 4 5 6 7 show ?thesis by (intro conjI)
qed

section \<open>Decisions and determinism\<close>

text \<open>
  C8. A Decision that allows has the empty explanation. A Decision that does not allow
  has a non-empty explanation, which is the sentence of its rule with the two values the
  Decision holds: the requested role and the annotated name, or the expression and the
  role it forbids.
\<close>

theorem decision_explanation:
  "(IsAllowed d \<longrightarrow> Explanation d = '''') \<and>
   (\<not> IsAllowed d \<longrightarrow>
      Explanation d \<noteq> '''' \<and>
      (\<exists>v w. sublist v (Explanation d) \<and> sublist w (Explanation d) \<and>
         (d = forbidden v w \<and>
          Explanation d = ''requested '' @ quoted v @ '' but annotated with '' @ quoted w @ '', forbidden''
          \<or>
          d = namespacePolicyForbidden v w \<and>
          Explanation d = ''namespace policy expression '' @ quoted v @ '' forbids role '' @ quoted w)))"
proof (cases d)
  case allowed
  then show ?thesis by simp
next
  case (forbidden v w)
  have "Explanation (forbidden v w) \<noteq> ''''"
    by simp
  moreover have "sublist v (Explanation (forbidden v w))" "sublist w (Explanation (forbidden v w))"
    by (rule forbidden_names_requested, rule forbidden_names_annotated)
  ultimately show ?thesis
    unfolding forbidden by (intro conjI impI exI [of _ v] exI [of _ w]) simp_all
next
  case (namespacePolicyForbidden v w)
  have "Explanation (namespacePolicyForbidden v w) \<noteq> ''''"
    by simp
  moreover have "sublist v (Explanation (namespacePolicyForbidden v w))"
    "sublist w (Explanation (namespacePolicyForbidden v w))"
    by (rule namespace_forbidden_names_expression, rule namespace_forbidden_names_role)
  ultimately show ?thesis
    unfolding namespacePolicyForbidden by (intro conjI impI exI [of _ v] exI [of _ w]) simp_all
qed

theorem decision_explanation_witness:
  "Explanation allowed = '''' \<and>
   Explanation (forbidden ''admin'' ''readonly'') \<noteq> '''' \<and>
   Explanation (namespacePolicyForbidden ''(empty)'' ''admin'') \<noteq> ''''"
  using decision_explanation [of allowed] decision_explanation [of "forbidden ''admin'' ''readonly''"]
    decision_explanation [of "namespacePolicyForbidden ''(empty)'' ''admin''"]
  by simp

lemma Requesting_stable:
  assumes "\<forall>v t t'. fst (resolver p v t) = fst (resolver p v t')"
  shows "fst (Requesting_IsAllowedAssumeRole x p ctx role pod t)
       = fst (Requesting_IsAllowedAssumeRole x p ctx role pod t')"
proof -
  obtain a1 s1 where 1: "resolver p (PodRole x pod) t = (a1, s1)" by force
  obtain a2 s2 where 2: "resolver p (PodRole x pod) t' = (a2, s2)" by force
  obtain r1 u1 where 3: "resolver p role s1 = (r1, u1)" by force
  obtain r2 u2 where 4: "resolver p role s2 = (r2, u2)" by force
  from assms [rule_format, of "PodRole x pod" t t'] 1 2 have a: "a1 = a2" by simp
  from assms [rule_format, of role s1 s2] 3 4 have r: "r1 = r2" by simp
  show ?thesis
    using 1 2 3 4 a r
    by (simp add: Requesting_IsAllowedAssumeRole_def split: sum.splits)
qed

lemma Namespace_stable:
  assumes "\<forall>v t t'. fst (ns_resolver p v t) = fst (ns_resolver p v t')"
    and "\<forall>c v t t'. fst (namespaces p c v t) = fst (namespaces p c v t')"
  shows "fst (Namespace_IsAllowedAssumeRole x p ctx role pod t)
       = fst (Namespace_IsAllowedAssumeRole x p ctx role pod t')"
proof -
  obtain r1 s1 where 1: "ns_resolver p role t = (r1, s1)" by force
  obtain r2 s2 where 2: "ns_resolver p role t' = (r2, s2)" by force
  obtain n1 u1 where 3: "namespaces p ctx (Namespace pod) s1 = (n1, u1)" by force
  obtain n2 u2 where 4: "namespaces p ctx (Namespace pod) s2 = (n2, u2)" by force
  from assms(1) [rule_format, of role t t'] 1 2 have r: "r1 = r2" by simp
  from assms(2) [rule_format, of ctx "Namespace pod" s1 s2] 3 4 have n: "n1 = n2" by simp
  show ?thesis
    using 1 2 3 4 r n
    by (simp add: Namespace_IsAllowedAssumeRole_def Let_def split: sum.splits)
qed

lemma range_policies_stable:
  assumes "\<forall>p\<in>set ps. \<forall>t t'. fst (p ctx role pod t) = fst (p ctx role pod t')"
  shows "fst (range_policies ps ctx role pod s) = fst (range_policies ps ctx role pod s')"
  using assms
proof (induction ps arbitrary: s s')
  case Nil
  show ?case by simp
next
  case (Cons p ps)
  obtain o1 t1 where 1: "p ctx role pod s = (o1, t1)" by force
  obtain o2 t2 where 2: "p ctx role pod s' = (o2, t2)" by force
  from Cons.prems 1 2 have same: "o1 = o2"
    by (metis fst_conv list.set_intros(1))
  from Cons.prems have "\<forall>p\<in>set ps. \<forall>t t'. fst (p ctx role pod t) = fst (p ctx role pod t')"
    by simp
  from Cons.IH [OF this]
  have "fst (range_policies ps ctx role pod t1) = fst (range_policies ps ctx role pod t2)" .
  with 1 2 same show ?case
    by (simp split: outcome.splits option.splits)
qed

text \<open>
  C9. When each member of a composite answers the inputs \<open>(ctx, role, pod)\<close> alike in
  every state of the world, two evaluations of the composite on these inputs return the
  same pair of Decision and error, whatever states \<open>s\<close> and \<open>s'\<close> they start in: in
  particular the second of two evaluations in a row returns what the first returned.
\<close>

theorem composite_deterministic:
  assumes "\<forall>p\<in>set ps. \<forall>t t'. fst (p ctx role pod t) = fst (p ctx role pod t')"
  shows "fst (Composite_IsAllowedAssumeRole (Policies ps) ctx role pod s)
       = fst (Composite_IsAllowedAssumeRole (Policies ps) ctx role pod s')"
  using range_policies_stable [OF assms]
  by (simp add: Composite_IsAllowedAssumeRole_def Policies_def)


lemma example_resolver_stable: "fst (example_resolver v t) = fst (example_resolver v t')"
  by (simp add: example_resolver_def)

lemma example_namespaces_stable: "fst (example_namespaces anns c v t) = fst (example_namespaces anns c v t')"
  by (simp add: example_namespaces_def)

lemma example_composite_allows:
  "Composite_IsAllowedAssumeRole
     (Policies [Requesting_IsAllowedAssumeRole example_packages
                  (NewRequestingAnnotatedRolePolicy example_resolver),
                Namespace_IsAllowedAssumeRole example_packages
                  (NewNamespacePermittedRoleNamePolicy True
                     (example_namespaces (permitted ''arn:aws:iam::111:role/team-.*'')) example_resolver)])
     () ''team-a'' (example_pod ''open'' ''arn:aws:iam::111:role/team-a'') []
   = (Return (Some allowed) None, [''Resolve'', ''Resolve'', ''Resolve'', ''FindNamespace''])"
  by code_simp

theorem composite_deterministic_witness:
  "fst (Composite_IsAllowedAssumeRole
     (Policies [Requesting_IsAllowedAssumeRole example_packages
                  (NewRequestingAnnotatedRolePolicy example_resolver),
                Namespace_IsAllowedAssumeRole example_packages
                  (NewNamespacePermittedRoleNamePolicy True
                     (example_namespaces (permitted ''arn:aws:iam::111:role/team-.*'')) example_resolver)])
     () ''team-a'' (example_pod ''open'' ''arn:aws:iam::111:role/team-a'')
     [''Resolve'', ''Resolve'', ''Resolve'', ''FindNamespace''])
   = Return (Some allowed) None"
proof -
  let ?a = "NewRequestingAnnotatedRolePolicy example_resolver"
  let ?n = "NewNamespacePermittedRoleNamePolicy True
     (example_namespaces (permitted ''arn:aws:iam::111:role/team-.*'')) example_resolver"
  let ?ps = "[Requesting_IsAllowedAssumeRole example_packages ?a,
              Namespace_IsAllowedAssumeRole example_packages ?n]"
  let ?pod = "example_pod ''open'' ''arn:aws:iam::111:role/team-a''"
  have a: "\<forall>t t'. fst (Requesting_IsAllowedAssumeRole example_packages ?a () ''team-a'' ?pod t)
                = fst (Requesting_IsAllowedAssumeRole example_packages ?a () ''team-a'' ?pod t')"
    by (intro allI Requesting_stable)
       (simp add: NewRequestingAnnotatedRolePolicy_def example_resolver_stable)
  have n: "\<forall>t t'. fst (Namespace_IsAllowedAssumeRole example_packages ?n () ''team-a'' ?pod t)
                = fst (Namespace_IsAllowedAssumeRole example_packages ?n () ''team-a'' ?pod t')"
    by (intro allI Namespace_stable)
       (simp_all add: NewNamespacePermittedRoleNamePolicy_def example_resolver_stable
          example_namespaces_stable)
  from a n have "\<forall>p\<in>set ?ps. \<forall>t t'. fst (p () ''team-a'' ?pod t) = fst (p () ''team-a'' ?pod t')"
    by simp
  from composite_deterministic [OF this, of "[''Resolve'', ''Resolve'', ''Resolve'', ''FindNamespace'']" "[]"]
  show ?thesis
    by (simp only: example_composite_allows fst_conv)
qed

section \<open>The shape of results\<close>

lemma exactly_one_Requesting: "exactly_one (fst (Requesting_IsAllowedAssumeRole x p ctx role pod s))"
  by (simp add: Requesting_IsAllowedAssumeRole_def exactly_one_def split: prod.splits sum.splits)

lemma exactly_one_Namespace: "exactly_one (fst (Namespace_IsAllowedAssumeRole x p ctx role pod s))"
  by (simp add: Namespace_IsAllowedAssumeRole_def exactly_one_def Let_def split: prod.splits sum.splits)

lemma exactly_one_range_policies:
  assumes "\<forall>m\<in>set ms. \<forall>t. exactly_one (fst (m ctx role pod t))"
  shows "exactly_one (fst (range_policies ms ctx role pod s))"
  using assms
proof (induction ms arbitrary: s)
  case Nil
  show ?case by (simp add: exactly_one_def)
next
  case (Cons m ms)
  obtain r t where m: "m ctx role pod s = (r, t)" by force
  from Cons.prems have "exactly_one (fst (m ctx role pod s))" by simp
  with m have r: "exactly_one r" by simp
  from Cons.prems have "\<forall>m\<in>set ms. \<forall>t. exactly_one (fst (m ctx role pod t))" by simp
  from Cons.IH [OF this] have "exactly_one (fst (range_policies ms ctx role pod t))" .
  with m r show ?case
    by (auto simp: exactly_one_def split: outcome.splits option.splits)
qed

text \<open>
  C10. Every policy of the package (a composite of such policies, the annotation-match
  policy, the namespace-permission policy), on every input and in every state, returns,
  and returns exactly one of a Decision and an error.
\<close>

theorem one_of_decision_and_error:
  "exactly_one (fst (IsAllowedAssumeRole x p ctx role pod s))"
proof (induction p arbitrary: s)
  case (CompositePolicy ps)
  then have "\<forall>m\<in>set (map (IsAllowedAssumeRole x) ps). \<forall>t. exactly_one (fst (m ctx role pod t))"
    by simp
  from exactly_one_range_policies [OF this]
  show ?case by (simp add: Composite_IsAllowedAssumeRole_def Policies_def)
next
  case (AnnotatedRolePolicy a)
  show ?case by (simp add: exactly_one_Requesting)
next
  case (NamespacePolicy n)
  show ?case by (simp add: exactly_one_Namespace)
qed


theorem one_of_decision_and_error_witness:
  "exactly_one (Return (Some allowed) None) \<and>
   fst (IsAllowedAssumeRole example_packages
     (CompositePolicy
        [AnnotatedRolePolicy (NewRequestingAnnotatedRolePolicy example_resolver),
         NamespacePolicy (NewNamespacePermittedRoleNamePolicy True
           (example_namespaces (permitted ''arn:aws:iam::111:role/team-.*'')) example_resolver)])
     () ''team-a'' (example_pod ''open'' ''arn:aws:iam::111:role/team-a'') [])
   = Return (Some allowed) None"
  using one_of_decision_and_error [of example_packages
      "CompositePolicy
        [AnnotatedRolePolicy (NewRequestingAnnotatedRolePolicy example_resolver),
         NamespacePolicy (NewNamespacePermittedRoleNamePolicy True
           (example_namespaces (permitted ''arn:aws:iam::111:role/team-.*'')) example_resolver)]"
      "()" "''team-a''" "example_pod ''open'' ''arn:aws:iam::111:role/team-a''" "[]"]
  by (simp add: example_composite_allows)

section \<open>Strict mode\<close>

text \<open>
  C1. In strict mode the policy compiles \<open>^\<close>, the expression and \<open>$\<close> put together. For
  the expression \<open>foo\<close> this is a full-string match: it matches \<open>foo\<close> and neither
  \<open>foobar\<close> nor \<open>xfoo\<close>, while the expression alone matches all three. For an
  expression with an alternation at its top it is not: \<open>^\<close> binds to the first
  alternative and \<open>$\<close> to the last. The expression
  \<open>arn:aws:iam::111:role/app|arn:aws:iam::111:role/web\<close> has no full-string match on
  \<open>arn:aws:iam::111:role/app-admin\<close>, and the strict policy allows the role \<open>app-admin\<close>.
\<close>

theorem strict_mode_alternation:
  "(case Compile (compiled_text True ''foo'') of
      Inl err \<Rightarrow> False
    | Inr re \<Rightarrow> re ''foo'' \<and> \<not> re ''foobar'' \<and> \<not> re ''xfoo'') \<and>
   (case Compile (compiled_text False ''foo'') of
      Inl err \<Rightarrow> False
    | Inr re \<Rightarrow> re ''foo'' \<and> re ''foobar'' \<and> re ''xfoo'') \<and>
   (case syntax_Parse ''arn:aws:iam::111:role/app|arn:aws:iam::111:role/web'' of
      Inl code \<Rightarrow> False
    | Inr re \<Rightarrow> full_match re ''arn:aws:iam::111:role/app'' \<and>
        \<not> full_match re ''arn:aws:iam::111:role/app-admin'') \<and>
   Namespace_IsAllowedAssumeRole example_packages
      (NewNamespacePermittedRoleNamePolicy True
         (example_namespaces (permitted ''arn:aws:iam::111:role/app|arn:aws:iam::111:role/web''))
         example_resolver)
      () ''app-admin'' (example_pod ''open'' ''app'') []
     = (Return (Some allowed) None, [''Resolve'', ''FindNamespace''])"
  by code_simp

end
